theory Spec2Isabelle
  imports Main "HOL-Library.Log_Nat" "HOL-Library.Multiset"
begin

section \<open>Python values used by the recorder\<close>

subsection \<open>Errors\<close>

text \<open>
  The exceptions the modelled code can raise: \<open>int / int\<close> raises
  \<open>ZeroDivisionError\<close> on a zero divisor and \<open>OverflowError\<close> when the
  quotient is too large for a float; \<open>open(path, "w")\<close> raises \<open>OSError\<close>
  when the path cannot be written; \<open>print\<close> raises \<open>UnicodeEncodeError\<close> when the
  encoding of \<open>sys.stdout\<close> has no bytes for the text.
\<close>

datatype py_error = ZeroDivisionError | OverflowError | OSError | UnicodeEncodeError

subsection \<open>Floats\<close>

text \<open>
  A Python \<open>float\<close> is an IEEE 754 binary64 value. A finite one is modelled by the
  rational number it denotes (the two signed zeros are identified: they compare equal
  in Python); the remaining values are the two infinities and NaN. Every arithmetic
  result is the exact rational result rounded to the nearest binary64 value, ties to
  the even significand: 53 significant bits, and a quantum of \<open>2 powi (-1074)\<close> in
  the subnormal range.
\<close>

datatype pyfloat = Finite rat | PosInf | NegInf | NaN

definition round_half_even :: "rat \<Rightarrow> int" where
  "round_half_even x =
     (let f = \<lfloor>x\<rfloor>; d = x - of_int f
      in if d < 1 / 2 then f else if 1 / 2 < d then f + 1 else if even f then f else f + 1)"

text \<open>For \<open>0 < x\<close>, the exponent \<open>k\<close> with \<open>2 powi k \<le> x < 2 powi (k + 1)\<close>.\<close>

definition floor_log2 :: "rat \<Rightarrow> int" where
  "floor_log2 x = (if 1 \<le> x then bitlen \<lfloor>x\<rfloor> - 1 else - bitlen (\<lceil>1 / x\<rceil> - 1))"

definition round_to_double :: "rat \<Rightarrow> rat" where
  "round_to_double x =
     (if x = 0 then 0
      else let q = max (floor_log2 \<bar>x\<bar> - 52) (- 1074)
           in of_int (round_half_even (x / 2 powi q)) * 2 powi q)"

text \<open>The result of a float operation whose exact value is \<open>x\<close>: overflow gives an infinity.\<close>

definition ieee_round :: "rat \<Rightarrow> pyfloat" where
  "ieee_round x =
     (let r = round_to_double x
      in if 2 ^ 1024 \<le> r then PosInf else if r \<le> - (2 ^ 1024) then NegInf else Finite r)"

text \<open>
  \<open>a / b\<close> on two \<open>int\<close>s: true division, correctly rounded, raising instead of
  returning an infinity.
\<close>

definition py_truediv :: "int \<Rightarrow> int \<Rightarrow> py_error + pyfloat" where
  "py_truediv a b =
     (if b = 0 then Inl ZeroDivisionError
      else let r = round_to_double (of_int a / of_int b)
           in if 2 ^ 1024 \<le> \<bar>r\<bar> then Inl OverflowError else Inr (Finite r))"

text \<open>\<open>x * y\<close> on two floats.\<close>

fun float_mul :: "pyfloat \<Rightarrow> pyfloat \<Rightarrow> pyfloat" where
  "float_mul (Finite x) (Finite y) = ieee_round (x * y)"
| "float_mul NaN _ = NaN"
| "float_mul _ NaN = NaN"
| "float_mul (Finite x) PosInf = (if x = 0 then NaN else if 0 < x then PosInf else NegInf)"
| "float_mul (Finite x) NegInf = (if x = 0 then NaN else if 0 < x then NegInf else PosInf)"
| "float_mul PosInf (Finite y) = (if y = 0 then NaN else if 0 < y then PosInf else NegInf)"
| "float_mul NegInf (Finite y) = (if y = 0 then NaN else if 0 < y then NegInf else PosInf)"
| "float_mul PosInf PosInf = PosInf"
| "float_mul PosInf NegInf = NegInf"
| "float_mul NegInf PosInf = NegInf"
| "float_mul NegInf NegInf = PosInf"

text \<open>\<open>x >= n\<close> for a float \<open>x\<close> and an \<open>int\<close> \<open>n\<close>: Python compares the exact values.\<close>

fun float_ge_int :: "pyfloat \<Rightarrow> int \<Rightarrow> bool" where
  "float_ge_int (Finite x) n = (of_int n \<le> x)"
| "float_ge_int PosInf n = True"
| "float_ge_int NegInf n = False"
| "float_ge_int NaN n = False"

text \<open>
  \<open>round(x, ndigits)\<close> for \<open>ndigits \<ge> 0\<close>: the exact value rounded half-even to
  \<open>ndigits\<close> decimal places, then to the nearest float; infinities and NaN round to
  themselves.
\<close>

fun py_round :: "pyfloat \<Rightarrow> nat \<Rightarrow> pyfloat" where
  "py_round (Finite x) ndigits =
     ieee_round (of_int (round_half_even (x * 10 ^ ndigits)) / 10 ^ ndigits)"
| "py_round PosInf ndigits = PosInf"
| "py_round NegInf ndigits = NegInf"
| "py_round NaN ndigits = NaN"

subsection \<open>Strings, dicts and the store\<close>

text \<open>
  A \<open>str\<close> is a sequence of code points. It is represented by the bytes UTF-8 gives
  for them, a surrogate (\<open>U+D800\<close> to \<open>U+DFFF\<close>, which a Python \<open>str\<close> may hold
  and strict UTF-8 refuses) written in the three bytes of its size, \<open>ED A0 80\<close> to
  \<open>ED BF BF\<close>: the bytes of \<open>s.encode("utf-8", "surrogatepass")\<close>. The characters of
  the source that are not ASCII:
\<close>

definition check_mark :: string where
  "check_mark = [CHR 0xE2, CHR 0x9C, CHR 0x93]"

definition ballot_x :: string where
  "ballot_x = [CHR 0xE2, CHR 0x9C, CHR 0x97]"

definition warning_sign :: string where
  "warning_sign = [CHR 0xE2, CHR 0x9A, CHR 0xA0]"

definition rightwards_arrow :: string where
  "rightwards_arrow = [CHR 0xE2, CHR 0x86, CHR 0x92]"

definition file_folder :: string where
  "file_folder = [CHR 0xF0, CHR 0x9F, CHR 0x93, CHR 0x81]"

text \<open>
  \<open>len(s)\<close> counts code points: the bytes that are not continuation bytes
  (\<open>80\<close> to \<open>BF\<close>). \<open>format(s, "14s")\<close>, the \<open>{s:14s}\<close> of an f-string, pads \<open>s\<close>
  with spaces on the right to 14 code points.
\<close>

definition py_len :: "string \<Rightarrow> nat" where
  "py_len s =
     length (filter (\<lambda>c. (of_char c :: nat) < 128 \<or> 192 \<le> (of_char c :: nat)) s)"

definition ljust :: "nat \<Rightarrow> string \<Rightarrow> string" where
  "ljust width s = s @ replicate (width - py_len s) CHR '' ''"


fun has_surrogate :: "string \<Rightarrow> bool" where
  "has_surrogate (a # b # cs) =
     ((a = CHR 0xED \<and> 160 \<le> (of_char b :: nat)) \<or> has_surrogate (b # cs))"
| "has_surrogate cs = False"

definition utf8_encode :: "string \<Rightarrow> string option" where
  "utf8_encode s = (if has_surrogate s then None else Some s)"

text \<open>
  A naive \<open>datetime\<close> is represented by its \<open>isoformat()\<close> text, which determines
  it. Every \<open>datetime.now()\<close> of the source is an input of the model.
\<close>

type_synonym datetime = string

definition isoformat :: "datetime \<Rightarrow> string" where
  "isoformat t = t"

text \<open>
  A result dict has string keys and string values and is never mutated once built: it
  is a value, the association list of its items in insertion order. A \<open>list\<close> object
  is mutated in place and can be shared, so list objects live in a store and are
  referred to by address.
\<close>

type_synonym addr = nat

type_synonym pydict = "(string \<times> string) list"

datatype pyval =
    PStr string
  | PInt int
  | PFloat pyfloat
  | PDict "(string \<times> pyval) list"
  | PListRef addr

datatype json =
    JStr string
  | JInt int
  | JFloat pyfloat
  | JObj "(string \<times> json) list"
  | JArr "json list"

text \<open>
  The state outside the tester object: the list objects, the next free address, the
  files written so far (a file is the JSON document it holds), the paths that cannot
  be opened for writing, the bytes written to \<open>sys.stdout\<close> so far and its encoding.
\<close>

record world =
  heap :: "addr \<Rightarrow> pydict list"
  next_addr :: addr
  files :: "string \<Rightarrow> json option"
  unwritable :: "string \<Rightarrow> bool"
  stdout :: string
  stdout_encode :: "string \<Rightarrow> string option"

text \<open>
  \<open>sys.stdout.write(s)\<close> encodes \<open>s\<close> and raises, with nothing written, when it
  cannot. \<open>print(s)\<close> writes \<open>s\<close> and then the newline; \<open>print()\<close> writes the newline
  alone. The result is the world after the call and the exception it raised, if any.
  Failures of the device behind \<open>sys.stdout\<close> are not part of the model.
\<close>

definition stdout_write :: "world \<Rightarrow> string \<Rightarrow> world \<times> py_error option" where
  "stdout_write w s =
     (case stdout_encode w s of
        None \<Rightarrow> (w, Some UnicodeEncodeError)
      | Some bytes \<Rightarrow> (w\<lparr>stdout := stdout w @ bytes\<rparr>, None))"

definition py_print :: "world \<Rightarrow> string \<Rightarrow> world \<times> py_error option" where
  "py_print w s =
     (case stdout_write w s of
        (w', Some e) \<Rightarrow> (w', Some e)
      | (w', None) \<Rightarrow> stdout_write w' [CHR 0x0A])"

text \<open>
  \<open>json.dump\<close> walks the value when it is called, reading each list in the store
  as it is then.
\<close>

definition json_of_dict :: "pydict \<Rightarrow> json" where
  "json_of_dict d = JObj (map (\<lambda>kv. (fst kv, JStr (snd kv))) d)"

primrec json_dump :: "(addr \<Rightarrow> pydict list) \<Rightarrow> pyval \<Rightarrow> json" where
  "json_dump h (PStr s) = JStr s"
| "json_dump h (PInt i) = JInt i"
| "json_dump h (PFloat x) = JFloat x"
| "json_dump h (PDict kvs) = JObj (map (map_prod id (json_dump h)) kvs)"
| "json_dump h (PListRef a) = JArr (map json_of_dict (h a))"

text \<open>The items of a JSON object, to look a key up in.\<close>

fun json_items :: "json \<Rightarrow> (string \<times> json) list" where
  "json_items (JObj kvs) = kvs"
| "json_items _ = []"

section \<open>\<open>slashy_test.py\<close>: class \<open>SlashyShortcutTester\<close>\<close>

record tester =
  test_results :: addr
  total_tests :: int
  passed_tests :: int
  failed_tests :: int
  partial_tests :: int
  error_tests :: int
  start_time :: datetime

text \<open>\<open>__init__\<close>: a new empty list, all counters zero, the clock read once.\<close>

definition init :: "world \<Rightarrow> datetime \<Rightarrow> world \<times> tester" where
  "init w now =
     (w\<lparr>heap := (heap w)(next_addr w := []), next_addr := Suc (next_addr w)\<rparr>,
      \<lparr>test_results = next_addr w, total_tests = 0, passed_tests = 0, failed_tests = 0,
       partial_tests = 0, error_tests = 0, start_time = now\<rparr>)"

text \<open>
  \<open>record_test\<close>. \<open>now\<close> is the value of \<open>datetime.now()\<close> in the call. The call
  appends the result and moves the counters, and then prints its line; the \<open>print\<close>
  is its only statement that can raise, and when it does the changes above stay. The
  result is the state after the call and the exception the call raised, if any.
\<close>

definition record_test_line :: "string \<Rightarrow> string \<Rightarrow> string \<Rightarrow> string" where
  "record_test_line shortcut description status =
     (let status_icon = (if status = ''PASS'' then check_mark
                         else if status = ''FAIL'' then ballot_x
                         else warning_sign)
      in status_icon @ '' '' @ ljust 14 shortcut @ '' '' @ rightwards_arrow @ '' '' @
         ljust 28 description @ '' ['' @ status @ '']'')"

definition record_test ::
  "world \<Rightarrow> tester \<Rightarrow> string \<Rightarrow> string \<Rightarrow> string \<Rightarrow> string \<Rightarrow> datetime
     \<Rightarrow> (world \<times> tester) \<times> py_error option" where
  "record_test w self shortcut description status notes now =
     (let result = [(''shortcut'', shortcut), (''description'', description),
                    (''status'', status), (''timestamp'', isoformat now), (''notes'', notes)];
          w' = w\<lparr>heap := (heap w)(test_results self := heap w (test_results self) @ [result])\<rparr>;
          self' = (if status = ''PASS'' then self\<lparr>passed_tests := passed_tests self + 1\<rparr>
                   else if status = ''FAIL'' then self\<lparr>failed_tests := failed_tests self + 1\<rparr>
                   else if status = ''PARTIAL'' then self\<lparr>partial_tests := partial_tests self + 1\<rparr>
                   else if status = ''ERROR'' then self\<lparr>error_tests := error_tests self + 1\<rparr>
                   else self);
          self'' = self'\<lparr>total_tests := total_tests self' + 1\<rparr>
      in case py_print w' (record_test_line shortcut description status) of
           (w'', raised) \<Rightarrow> ((w'', self''), raised))"

text \<open>\<open>get_pass_rate\<close>.\<close>

definition get_pass_rate :: "tester \<Rightarrow> py_error + pyfloat" where
  "get_pass_rate self =
     (if total_tests self = 0 then Inr (Finite 0)
      else case py_truediv (passed_tests self) (total_tests self) of
             Inl e \<Rightarrow> Inl e
           | Inr q \<Rightarrow> Inr (float_mul q (Finite 100)))"

text \<open>
  \<open>print_summary\<close>: the value of its local \<open>overall_status\<close>, which it prints on the
  \<open>Overall Status:\<close> line; the other lines only format the counters.
\<close>

definition overall_status :: "pyfloat \<Rightarrow> string" where
  "overall_status pass_rate =
     (if float_ge_int pass_rate 80 then check_mark @ '' PRODUCTION READY''
      else if float_ge_int pass_rate 60 then warning_sign @ '' MOSTLY FUNCTIONAL''
      else ballot_x @ '' NEEDS IMPROVEMENT'')"

definition print_summary :: "tester \<Rightarrow> py_error + string" where
  "print_summary self =
     (case get_pass_rate self of
        Inl e \<Rightarrow> Inl e
      | Inr pass_rate \<Rightarrow> Inr (overall_status pass_rate))"

text \<open>
  \<open>save_json_report\<close>: first the dict \<open>report\<close>, whose \<open>"test_results"\<close> item is
  \<open>self.test_results\<close> itself, then the file, then two \<open>print\<close>s. \<open>report\<close> is a
  local variable: it is dumped at once and nothing refers to it after the call. The
  result is the world after the call and the exception the call raised, if any; a
  \<open>print\<close> that raises leaves the file written.
\<close>

definition report :: "tester \<Rightarrow> datetime \<Rightarrow> py_error + pyval" where
  "report self now =
     (case get_pass_rate self of
        Inl e \<Rightarrow> Inl e
      | Inr pass_rate \<Rightarrow> Inr (PDict
          [(''metadata'', PDict
              [(''application'', PStr ''Slashy Mail''),
               (''platform'', PStr ''Mac OS''),
               (''browser'', PStr ''Chrome''),
               (''url'', PStr ''https://slashy.com''),
               (''start_time'', PStr (isoformat (start_time self))),
               (''end_time'', PStr (isoformat now))]),
           (''summary'', PDict
              [(''total_tests'', PInt (total_tests self)),
               (''passed'', PInt (passed_tests self)),
               (''partial'', PInt (partial_tests self)),
               (''failed'', PInt (failed_tests self)),
               (''errors'', PInt (error_tests self)),
               (''pass_rate'', PFloat (py_round pass_rate 2))]),
           (''test_results'', PListRef (test_results self))]))"

definition save_json_report :: "world \<Rightarrow> tester \<Rightarrow> datetime \<Rightarrow> world \<times> py_error option" where
  "save_json_report w self now =
     (case report self now of
        Inl e \<Rightarrow> (w, Some e)
      | Inr r \<Rightarrow>
          if unwritable w ''slashy_test_report.json'' then (w, Some OSError)
          else
            (case py_print
                    (w\<lparr>files := (files w)(''slashy_test_report.json'' \<mapsto>
                                     json_dump (heap w) r)\<rparr>)
                    (file_folder @ '' Report saved to: slashy_test_report.json'') of
               (w', Some e) \<Rightarrow> (w', Some e)
             | (w', None) \<Rightarrow> stdout_write w' [CHR 0x0A]))"

text \<open>
  A sequence of \<open>record_test\<close> calls, each with its arguments and its clock reading:
  the state after all of them have been made. A call that raises has recorded its
  result all the same, so the state is threaded on whatever a call raised, as for a
  caller that catches the exception; \<open>run_all_tests\<close>, which does not, has then made
  the calls of its list up to that one, which is a sequence of calls too.
\<close>

type_synonym call = "string \<times> string \<times> string \<times> string \<times> datetime"

fun record_all :: "world \<Rightarrow> tester \<Rightarrow> call list \<Rightarrow> world \<times> tester" where
  "record_all w self [] = (w, self)"
| "record_all w self ((shortcut, description, status, notes, now) # cs) =
     (case record_test w self shortcut description status notes now of
        ((w', self'), raised) \<Rightarrow> record_all w' self' cs)"

text \<open>The result dict a call appends, and the status it was called with.\<close>

definition call_result :: "call \<Rightarrow> pydict" where
  "call_result c =
     (case c of (shortcut, description, status, notes, now) \<Rightarrow>
        [(''shortcut'', shortcut), (''description'', description), (''status'', status),
         (''timestamp'', isoformat now), (''notes'', notes)])"

definition call_status :: "call \<Rightarrow> string" where
  "call_status c = (case c of (shortcut, description, status, notes, now) \<Rightarrow> status)"

definition recognized :: "string \<Rightarrow> bool" where
  "recognized status =
     (status = ''PASS'' \<or> status = ''FAIL'' \<or> status = ''PARTIAL'' \<or> status = ''ERROR'')"

text \<open>The number of calls of a sequence made with a given status.\<close>

definition count_status :: "string \<Rightarrow> call list \<Rightarrow> int" where
  "count_status s cs = int (length (filter (\<lambda>c. call_status c = s) cs))"

section \<open>\<open>slashy_shortcut_tests.py\<close>: class \<open>SlashyShortcutTester\<close>\<close>

text \<open>
  The second module defines a class of the same name, with no \<open>error_tests\<close> field
  and a \<open>test_id\<close> argument; its names carry the prefix \<open>sst\<close> here.
\<close>

record sst_tester =
  sst_test_results :: addr
  sst_total_tests :: int
  sst_passed_tests :: int
  sst_failed_tests :: int
  sst_partial_tests :: int
  sst_start_time :: datetime

definition sst_init :: "world \<Rightarrow> datetime \<Rightarrow> world \<times> sst_tester" where
  "sst_init w now =
     (w\<lparr>heap := (heap w)(next_addr w := []), next_addr := Suc (next_addr w)\<rparr>,
      \<lparr>sst_test_results = next_addr w, sst_total_tests = 0, sst_passed_tests = 0,
       sst_failed_tests = 0, sst_partial_tests = 0, sst_start_time = now\<rparr>)"

definition sst_record_test ::
  "world \<Rightarrow> sst_tester \<Rightarrow> string \<Rightarrow> string \<Rightarrow> string \<Rightarrow> string \<Rightarrow> string \<Rightarrow> datetime
     \<Rightarrow> world \<times> sst_tester" where
  "sst_record_test w self test_id shortcut description status notes now =
     (let result = [(''test_id'', test_id), (''shortcut'', shortcut),
                    (''description'', description), (''status'', status),
                    (''timestamp'', isoformat now), (''notes'', notes)];
          w' = w\<lparr>heap := (heap w)(sst_test_results self :=
                              heap w (sst_test_results self) @ [result])\<rparr>;
          self' = (if status = ''PASS''
                     then self\<lparr>sst_passed_tests := sst_passed_tests self + 1\<rparr>
                   else if status = ''FAIL''
                     then self\<lparr>sst_failed_tests := sst_failed_tests self + 1\<rparr>
                   else if status = ''PARTIAL''
                     then self\<lparr>sst_partial_tests := sst_partial_tests self + 1\<rparr>
                   else self)
      in (w', self'\<lparr>sst_total_tests := sst_total_tests self' + 1\<rparr>))"

text \<open>A sequence of calls of the second \<open>record_test\<close>: a \<open>test_id\<close> with each call.\<close>

fun sst_record_all :: "world \<Rightarrow> sst_tester \<Rightarrow> (string \<times> call) list \<Rightarrow> world \<times> sst_tester" where
  "sst_record_all w self [] = (w, self)"
| "sst_record_all w self ((test_id, shortcut, description, status, notes, now) # cs) =
     (case sst_record_test w self test_id shortcut description status notes now of
        (w', self') \<Rightarrow> sst_record_all w' self' cs)"

section \<open>Runs\<close>

text \<open>
  The state a program starts in: no list object, no file, every path writable, nothing
  printed, and a \<open>sys.stdout\<close> in UTF-8.
\<close>

definition empty_world :: world where
  "empty_world =
     \<lparr>heap = (\<lambda>a. []), next_addr = 0, files = (\<lambda>p. None), unwritable = (\<lambda>p. False),
      stdout = [], stdout_encode = utf8_encode\<rparr>"

text \<open>\<open>self.test_results\<close> read through the store.\<close>

definition results_of :: "world \<times> tester \<Rightarrow> pydict list" where
  "results_of st = heap (fst st) (test_results (snd st))"

text \<open>
  \<open>tester = SlashyShortcutTester()\<close> followed by a sequence of \<open>record_test\<close>
  calls, for each of the two classes.
\<close>

definition run :: "world \<Rightarrow> datetime \<Rightarrow> call list \<Rightarrow> world \<times> tester" where
  "run w now cs = (case init w now of (w0, self) \<Rightarrow> record_all w0 self cs)"

definition sst_run :: "world \<Rightarrow> datetime \<Rightarrow> (string \<times> call) list \<Rightarrow> world \<times> sst_tester" where
  "sst_run w now cs = (case sst_init w now of (w0, self) \<Rightarrow> sst_record_all w0 self cs)"

text \<open>
  The \<open>"test_results"\<close> of the report in the file \<open>slashy_test_report.json\<close>, if
  the file is there.
\<close>

definition file_test_results :: "world \<Rightarrow> json option" where
  "file_test_results w =
     (case files w ''slashy_test_report.json'' of
        None \<Rightarrow> None
      | Some doc \<Rightarrow> map_of (json_items doc) ''test_results'')"

section \<open>Facts about the recorder\<close>

text \<open>
  Printing touches \<open>stdout\<close> alone, and raises exactly when the encoding has no
  bytes for the text or for the newline.
\<close>

lemma stdout_write_frame [simp]:
  "heap (fst (stdout_write w s)) = heap w"
  "next_addr (fst (stdout_write w s)) = next_addr w"
  "files (fst (stdout_write w s)) = files w"
  "unwritable (fst (stdout_write w s)) = unwritable w"
  "stdout_encode (fst (stdout_write w s)) = stdout_encode w"
  by (simp_all add: stdout_write_def split: option.splits)

lemma py_print_frame [simp]:
  "heap (fst (py_print w s)) = heap w"
  "next_addr (fst (py_print w s)) = next_addr w"
  "files (fst (py_print w s)) = files w"
  "unwritable (fst (py_print w s)) = unwritable w"
  "stdout_encode (fst (py_print w s)) = stdout_encode w"
  by (simp_all add: py_print_def split_beta split: option.splits)


text \<open>
  What one \<open>record_test\<close> call does to each field of the tester and of the world.
\<close>

lemma record_test_total [simp]:
  "total_tests (snd (fst (record_test w self sc d st n now))) = total_tests self + 1"
  by (simp add: record_test_def Let_def split_beta)

lemma record_test_passed [simp]:
  "passed_tests (snd (fst (record_test w self sc d st n now))) =
     passed_tests self + (if st = ''PASS'' then 1 else 0)"
  by (simp add: record_test_def Let_def split_beta)

lemma record_test_failed [simp]:
  "failed_tests (snd (fst (record_test w self sc d st n now))) =
     failed_tests self + (if st = ''FAIL'' then 1 else 0)"
  by (simp add: record_test_def Let_def split_beta)

lemma record_test_partial [simp]:
  "partial_tests (snd (fst (record_test w self sc d st n now))) =
     partial_tests self + (if st = ''PARTIAL'' then 1 else 0)"
  by (simp add: record_test_def Let_def split_beta)

lemma record_test_error [simp]:
  "error_tests (snd (fst (record_test w self sc d st n now))) =
     error_tests self + (if st = ''ERROR'' then 1 else 0)"
  by (simp add: record_test_def Let_def split_beta)

lemma record_test_frame [simp]:
  "test_results (snd (fst (record_test w self sc d st n now))) = test_results self"
  "start_time (snd (fst (record_test w self sc d st n now))) = start_time self"
  "next_addr (fst (fst (record_test w self sc d st n now))) = next_addr w"
  "files (fst (fst (record_test w self sc d st n now))) = files w"
  "unwritable (fst (fst (record_test w self sc d st n now))) = unwritable w"
  "stdout_encode (fst (fst (record_test w self sc d st n now))) = stdout_encode w"
  by (simp_all add: record_test_def Let_def split_beta)

lemma record_test_heap [simp]:
  "heap (fst (fst (record_test w self sc d st n now))) =
     (heap w)(test_results self := heap w (test_results self) @
        [call_result (sc, d, st, n, now)])"
  by (simp add: record_test_def Let_def split_beta call_result_def)




text \<open>
  What a sequence of calls does: each counter grows by the number of calls with its
  status, the list by one result per call, and nothing else changes.
\<close>

lemma record_all_Cons:
  "record_all w self (c # cs) =
     record_all
       (fst (fst (record_test w self (fst c) (fst (snd c)) (fst (snd (snd c)))
                    (fst (snd (snd (snd c)))) (snd (snd (snd (snd c)))))))
       (snd (fst (record_test w self (fst c) (fst (snd c)) (fst (snd (snd c)))
                    (fst (snd (snd (snd c)))) (snd (snd (snd (snd c)))))))
       cs"
  by (cases c) (simp add: split_beta)

lemma record_all_total:
  "total_tests (snd (record_all w self cs)) = total_tests self + int (length cs)"
  by (induction cs arbitrary: w self) (simp_all add: record_all_Cons)

lemma record_all_passed:
  "passed_tests (snd (record_all w self cs)) = passed_tests self + count_status ''PASS'' cs"
  by (induction cs arbitrary: w self)
     (simp_all add: record_all_Cons count_status_def call_status_def split_beta)

lemma record_all_failed:
  "failed_tests (snd (record_all w self cs)) = failed_tests self + count_status ''FAIL'' cs"
  by (induction cs arbitrary: w self)
     (simp_all add: record_all_Cons count_status_def call_status_def split_beta)

lemma record_all_partial:
  "partial_tests (snd (record_all w self cs)) =
     partial_tests self + count_status ''PARTIAL'' cs"
  by (induction cs arbitrary: w self)
     (simp_all add: record_all_Cons count_status_def call_status_def split_beta)

lemma record_all_error:
  "error_tests (snd (record_all w self cs)) = error_tests self + count_status ''ERROR'' cs"
  by (induction cs arbitrary: w self)
     (simp_all add: record_all_Cons count_status_def call_status_def split_beta)

lemma record_all_frame:
  "test_results (snd (record_all w self cs)) = test_results self"
  "start_time (snd (record_all w self cs)) = start_time self"
  "next_addr (fst (record_all w self cs)) = next_addr w"
  "files (fst (record_all w self cs)) = files w"
  "unwritable (fst (record_all w self cs)) = unwritable w"
  "stdout_encode (fst (record_all w self cs)) = stdout_encode w"
  by (induction cs arbitrary: w self) (simp_all add: record_all_Cons)

lemma record_all_heap:
  "heap (fst (record_all w self cs)) =
     (heap w)(test_results self := heap w (test_results self) @ map call_result cs)"
  by (induction cs arbitrary: w self)
     (simp_all add: record_all_Cons fun_eq_iff call_result_def split_beta)

text \<open>
  A fresh recorder, and a run from one.
\<close>

lemma init_fields [simp]:
  "total_tests (snd (init w now)) = 0"
  "passed_tests (snd (init w now)) = 0"
  "failed_tests (snd (init w now)) = 0"
  "partial_tests (snd (init w now)) = 0"
  "error_tests (snd (init w now)) = 0"
  "test_results (snd (init w now)) = next_addr w"
  "start_time (snd (init w now)) = now"
  "heap (fst (init w now)) = (heap w)(next_addr w := [])"
  by (simp_all add: init_def)

lemma run_eq: "run w now cs = record_all (fst (init w now)) (snd (init w now)) cs"
  by (simp add: run_def split_beta)

lemma results_of_run: "results_of (run w now cs) = map call_result cs"
  by (simp add: results_of_def run_eq record_all_heap record_all_frame)

text \<open>
  Counting statuses.
\<close>

lemma count_recognized:
  "count_status ''PASS'' cs + count_status ''FAIL'' cs + count_status ''PARTIAL'' cs +
     count_status ''ERROR'' cs =
   int (length (filter (\<lambda>c. recognized (call_status c)) cs))"
  by (induction cs) (auto simp: count_status_def recognized_def)

lemma length_filter_eq_iff:
  "(length (filter P xs) = length xs) = (\<forall>x\<in>set xs. P x)"
proof (induction xs)
  case Nil
  then show ?case by simp
next
  case (Cons x xs)
  have le: "length (filter P xs) \<le> length xs" by simp
  show ?case
  proof (cases "P x")
    case True
    with Cons show ?thesis by simp
  next
    case False
    from le have "length (filter P xs) \<noteq> Suc (length xs)" by arith
    with False show ?thesis by simp
  qed
qed

lemma count_status_mset:
  "count_status s cs = int (count (mset (map call_status cs)) s)"
  by (induction cs) (auto simp: count_status_def)

text \<open>
  The same facts for the class of \<open>slashy_shortcut_tests.py\<close>.
\<close>

lemma sst_record_test_fields [simp]:
  "sst_total_tests (snd (sst_record_test w self i sc d st n now)) = sst_total_tests self + 1"
  "sst_passed_tests (snd (sst_record_test w self i sc d st n now)) =
     sst_passed_tests self + (if st = ''PASS'' then 1 else 0)"
  "sst_failed_tests (snd (sst_record_test w self i sc d st n now)) =
     sst_failed_tests self + (if st = ''FAIL'' then 1 else 0)"
  "sst_partial_tests (snd (sst_record_test w self i sc d st n now)) =
     sst_partial_tests self + (if st = ''PARTIAL'' then 1 else 0)"
  by (simp_all add: sst_record_test_def Let_def)

lemma sst_record_all_total:
  "sst_total_tests (snd (sst_record_all w self cs)) = sst_total_tests self + int (length cs)"
  by (induction w self cs rule: sst_record_all.induct) (simp_all add: split_beta)

lemma sst_record_all_passed:
  "sst_passed_tests (snd (sst_record_all w self cs)) =
     sst_passed_tests self + count_status ''PASS'' (map snd cs)"
  by (induction w self cs rule: sst_record_all.induct)
     (simp_all add: split_beta count_status_def call_status_def)

lemma sst_record_all_failed:
  "sst_failed_tests (snd (sst_record_all w self cs)) =
     sst_failed_tests self + count_status ''FAIL'' (map snd cs)"
  by (induction w self cs rule: sst_record_all.induct)
     (simp_all add: split_beta count_status_def call_status_def)

lemma sst_record_all_partial:
  "sst_partial_tests (snd (sst_record_all w self cs)) =
     sst_partial_tests self + count_status ''PARTIAL'' (map snd cs)"
  by (induction w self cs rule: sst_record_all.induct)
     (simp_all add: split_beta count_status_def call_status_def)

lemma sst_init_fields [simp]:
  "sst_total_tests (snd (sst_init w now)) = 0"
  "sst_passed_tests (snd (sst_init w now)) = 0"
  "sst_failed_tests (snd (sst_init w now)) = 0"
  "sst_partial_tests (snd (sst_init w now)) = 0"
  by (simp_all add: sst_init_def)

lemma sst_run_eq:
  "sst_run w now cs = sst_record_all (fst (sst_init w now)) (snd (sst_init w now)) cs"
  by (simp add: sst_run_def split_beta)

section \<open>Facts about floats and the pass rate\<close>

text \<open>
  Rounding to an integer is within one half, leaves integers alone and is monotone
  against them.
\<close>

lemma round_half_even_error: "\<bar>of_int (round_half_even y) - y\<bar> \<le> 1 / 2"
proof -
  have "of_int \<lfloor>y\<rfloor> \<le> y" "y < of_int \<lfloor>y\<rfloor> + 1"
    by linarith+
  then show ?thesis
    by (auto simp: round_half_even_def Let_def)
qed

lemma round_half_even_of_int [simp]: "round_half_even (of_int n) = n"
  by (simp add: round_half_even_def)

lemma round_half_even_le: "y \<le> of_int n \<Longrightarrow> round_half_even y \<le> n"
proof -
  assume le: "y \<le> of_int n"
  have fl: "\<lfloor>y\<rfloor> \<le> n" using le by (simp add: floor_le_iff)
  show ?thesis
  proof (cases "\<lfloor>y\<rfloor> = n")
    case True
    then have "y = of_int n" using le by (metis of_int_floor_le order_antisym)
    then show ?thesis by simp
  next
    case False
    with fl have "\<lfloor>y\<rfloor> + 1 \<le> n" by simp
    then show ?thesis
      by (auto simp: round_half_even_def Let_def)
  qed
qed

lemma round_half_even_ge: "of_int n \<le> y \<Longrightarrow> n \<le> round_half_even y"
proof -
  assume "of_int n \<le> y"
  then have "n \<le> \<lfloor>y\<rfloor>" by (simp add: le_floor_iff)
  then show ?thesis
    by (auto simp: round_half_even_def Let_def)
qed

text \<open>
  A value below \<open>2 ^ (k + 1)\<close> has an exponent of at most \<open>k\<close>.
\<close>

lemma floor_log2_le:
  assumes "0 < x" and "x < 2 ^ Suc k"
  shows "floor_log2 x \<le> int k"
proof (cases "1 \<le> x")
  case True
  have "\<lfloor>x\<rfloor> < 2 ^ Suc k"
    using assms(2) by (simp add: floor_less_iff)
  then have "bitlen \<lfloor>x\<rfloor> \<le> int (Suc k)"
    unfolding bitlen_le_iff_power by (simp only: nat_int) simp
  with True show ?thesis
    by (simp add: floor_log2_def)
next
  case False
  then show ?thesis
    using bitlen_nonneg [of "\<lceil>1 / x\<rceil> - 1"] by (simp add: floor_log2_def)
qed

text \<open>
  An integer below \<open>2 ^ 53\<close> is a float, so a value between 0 and such an integer
  rounds to a float between them; and a value below \<open>2 ^ (k + 1)\<close> rounds to a float
  within \<open>2 ^ k / 2 ^ 53\<close> of it, half a unit in the last of its 53 bits.
\<close>

lemma round_to_double_range:
  assumes "0 \<le> x" and "x \<le> of_int n" and "n < 2 ^ 53"
  shows "0 \<le> round_to_double x \<and> round_to_double x \<le> of_int n"
proof (cases "x = 0")
  case True
  with assms show ?thesis by (simp add: round_to_double_def)
next
  case False
  with assms have pos: "0 < x" by simp
  have "x < of_int (2 ^ 53)"
    using assms(2,3) by (meson less_le_trans not_le of_int_less_iff order_le_less_trans)
  then have "x < 2 ^ Suc 52" by simp
  then have fl: "floor_log2 x \<le> 52"
    using floor_log2_le [OF pos, of 52] by simp
  define q where "q = max (floor_log2 \<bar>x\<bar> - 52) (- 1074)"
  define m where "m = nat (- q)"
  have q0: "q \<le> 0" using fl pos by (simp add: q_def)
  have pw: "(2::rat) powi q = 1 / 2 ^ m"
    using q0 by (simp add: power_int_def m_def inverse_eq_divide power_one_over) 
  have rd: "round_to_double x = of_int (round_half_even (x * 2 ^ m)) / 2 ^ m"
    using False pw by (simp add: round_to_double_def Let_def q_def [symmetric])
  have "x * 2 ^ m \<le> of_int (n * 2 ^ m)"
    using assms(2) by simp
  then have up: "round_half_even (x * 2 ^ m) \<le> n * 2 ^ m"
    by (rule round_half_even_le)
  have "of_int 0 \<le> x * 2 ^ m" using pos by simp
  then have lo: "0 \<le> round_half_even (x * 2 ^ m)"
    by (rule round_half_even_ge)
  have "rat_of_int (round_half_even (x * 2 ^ m)) \<le> of_int (n * 2 ^ m)"
    using up by (simp only: of_int_le_iff)
  then have "of_int (round_half_even (x * 2 ^ m)) / 2 ^ m \<le> (of_int n :: rat)"
    by (simp add: divide_le_eq)
  moreover have "0 \<le> rat_of_int (round_half_even (x * 2 ^ m)) / 2 ^ m"
    using lo by simp
  ultimately show ?thesis
    by (simp add: rd)
qed

lemma round_to_double_error:
  assumes "0 < x" and "x < 2 ^ Suc k"
  shows "\<bar>round_to_double x - x\<bar> \<le> 2 ^ k / 2 ^ 53"
proof -
  define q where "q = max (floor_log2 \<bar>x\<bar> - 52) (- 1074)"
  define P where "P = (2::rat) powi q"
  have fl: "floor_log2 x \<le> int k"
    by (rule floor_log2_le [OF assms])
  have qk: "q \<le> int k - 52" using fl assms(1) by (simp add: q_def)
  have Ppos: "0 < P" by (simp add: P_def)
  have "P \<le> 2 powi (int k - 52)"
    unfolding P_def using qk by (intro power_int_increasing) simp_all
  also have "\<dots> = 2 ^ k / 2 ^ 52"
    by (simp add: power_int_diff)
  finally have Ple: "P \<le> 2 ^ k / 2 ^ 52" .
  have qx: "max (floor_log2 x - 52) (- 1074) = q"
    using assms(1) by (simp add: q_def)
  have rd: "round_to_double x = of_int (round_half_even (x / P)) * P"
    using assms(1) by (simp add: round_to_double_def Let_def qx P_def)
  have "round_to_double x - x = (of_int (round_half_even (x / P)) - x / P) * P"
    using Ppos by (simp add: rd algebra_simps)
  then have "\<bar>round_to_double x - x\<bar> = \<bar>of_int (round_half_even (x / P)) - x / P\<bar> * P"
    using Ppos by (simp add: abs_mult)
  also have "\<dots> \<le> (1 / 2) * P"
    using round_half_even_error [of "x / P"] Ppos by (intro mult_right_mono) simp_all
  also have "\<dots> \<le> (1 / 2) * (2 ^ k / 2 ^ 52)"
    using Ple by simp
  also have "\<dots> = 2 ^ k / 2 ^ 53" by simp
  finally show ?thesis .
qed

lemma round_to_double_error0:
  assumes "0 \<le> x" and "x < 2 ^ Suc k"
  shows "\<bar>round_to_double x - x\<bar> \<le> 2 ^ k / 2 ^ 53"
proof (cases "x = 0")
  case True
  then show ?thesis by (simp add: round_to_double_def)
next
  case False
  with assms(1) have "0 < x" by simp
  then show ?thesis using assms(2) by (rule round_to_double_error)
qed

text \<open>
  Floats up to 100 are far from overflow.
\<close>

lemma hundred_less_huge: "(100::rat) < 2 ^ 1024"
proof -
  have "(100::rat) < 2 ^ 7" by simp
  also have "\<dots> \<le> 2 ^ 1024" by (rule power_increasing) simp_all
  finally show ?thesis .
qed

lemma ieee_round_Finite:
  "\<bar>round_to_double x\<bar> \<le> 100 \<Longrightarrow> ieee_round x = Finite (round_to_double x)"
  using hundred_less_huge by (simp add: ieee_round_def Let_def abs_le_iff)

lemma py_truediv_Finite:
  "b \<noteq> 0 \<Longrightarrow> \<bar>round_to_double (of_int a / of_int b)\<bar> \<le> 100 \<Longrightarrow>
     py_truediv a b = Inr (Finite (round_to_double (of_int a / of_int b)))"
  using hundred_less_huge by (simp add: py_truediv_def Let_def)

text \<open>
  The two roundings of \<open>get_pass_rate\<close>, when \<open>0 \<le> passed_tests \<le> total_tests\<close>:
  the quotient is at most 1 and is off by at most \<open>1 / 2 ^ 53\<close>, the product is at most
  100 and is off by at most \<open>2 ^ 6 / 2 ^ 53\<close> more.
\<close>

lemma get_pass_rate_accuracy:
  assumes "0 \<le> passed_tests self" and "passed_tests self \<le> total_tests self"
    and "0 < total_tests self"
  shows "\<exists>r. get_pass_rate self = Inr (Finite r) \<and> 0 \<le> r \<and> r \<le> 100 \<and>
           \<bar>r - of_int (passed_tests self) / of_int (total_tests self) * 100\<bar> \<le> 1 / 2 ^ 45"
proof -
  define x :: rat where "x = of_int (passed_tests self) / of_int (total_tests self)"
  define r1 where "r1 = round_to_double x"
  define r2 where "r2 = round_to_double (r1 * 100)"
  have x0: "0 \<le> x" using assms by (simp add: x_def)
  have x1: "x \<le> of_int 1" using assms by (simp add: x_def divide_le_eq_1)
  have r1_range: "0 \<le> r1 \<and> r1 \<le> of_int 1"
    unfolding r1_def by (rule round_to_double_range [OF x0 x1]) simp
  have r1_err: "\<bar>r1 - x\<bar> \<le> 2 ^ 0 / 2 ^ 53"
    unfolding r1_def using x0 x1 by (intro round_to_double_error0) simp_all
  have y0: "0 \<le> r1 * 100" using r1_range by simp
  have y1: "r1 * 100 \<le> of_int 100" using r1_range by simp
  have r2_range: "0 \<le> r2 \<and> r2 \<le> of_int 100"
    unfolding r2_def by (rule round_to_double_range [OF y0 y1]) simp
  have r2_err: "\<bar>r2 - r1 * 100\<bar> \<le> 2 ^ 6 / 2 ^ 53"
    unfolding r2_def using y0 y1 by (intro round_to_double_error0) simp_all
  have div: "py_truediv (passed_tests self) (total_tests self) = Inr (Finite r1)"
    using assms(3) r1_range hundred_less_huge
    by (simp add: py_truediv_def Let_def x_def [symmetric] r1_def [symmetric])
  have mul: "ieee_round (r1 * 100) = Finite r2"
    using r2_range hundred_less_huge
    by (simp add: ieee_round_def Let_def r2_def [symmetric])
  have rate: "get_pass_rate self = Inr (Finite r2)"
    using assms(3) by (simp add: get_pass_rate_def div mul)
  have "\<bar>r2 - x * 100\<bar> \<le> \<bar>r2 - r1 * 100\<bar> + 100 * \<bar>r1 - x\<bar>"
    by (simp add: abs_if split: if_splits)
  also have "\<dots> \<le> 2 ^ 6 / 2 ^ 53 + 100 * (2 ^ 0 / 2 ^ 53)"
    using r1_err r2_err by (intro add_mono mult_left_mono) simp_all
  also have "\<dots> \<le> 1 / 2 ^ 45" by simp
  finally have "\<bar>r2 - x * 100\<bar> \<le> 1 / 2 ^ 45" .
  with rate r2_range show ?thesis
    by (auto simp: x_def)
qed

text \<open>
  The roundings of the two scenarios used below, \<open>17 / 21\<close> and \<open>2 / 4\<close>, evaluated.
  \<open>91144278172974325 / 1125899906842624\<close> is the exact product of the float nearest to
  \<open>17 / 21\<close> and 100.
\<close>

lemma round_to_double_17_21:
  "round_to_double (17 / 21) = 3645771126918973 / 4503599627370496"
  by code_simp

lemma round_to_double_17_21_100:
  "round_to_double (91144278172974325 / 1125899906842624) =
     5696517385810895 / 70368744177664"
  by code_simp

lemma round_half_even_17_21:
  "round_half_even (5696517385810895 / 70368744177664 * 10 ^ 2) = 8095"
  by code_simp

lemma round_to_double_half: "round_to_double (1 / 2) = 1 / 2"
  by code_simp

lemma round_to_double_50: "round_to_double 50 = 50"
  by code_simp

lemma truediv_17_21: "py_truediv 17 21 = Inr (Finite (3645771126918973 / 4503599627370496))"
  using py_truediv_Finite [of 21 17] by (simp add: round_to_double_17_21)

lemma ieee_round_17_21_100:
  "ieee_round (91144278172974325 / 1125899906842624) =
     Finite (5696517385810895 / 70368744177664)"
  using ieee_round_Finite [of "91144278172974325 / 1125899906842624"]
  by (simp add: round_to_double_17_21_100)

lemma truediv_2_4: "py_truediv 2 4 = Inr (Finite (1 / 2))"
  using py_truediv_Finite [of 4 2] by (simp add: round_to_double_half)

lemma ieee_round_50: "ieee_round 50 = Finite 50"
  using ieee_round_Finite [of 50] by (simp add: round_to_double_50)

lemma truediv_1_2: "py_truediv 1 2 = Inr (Finite (1 / 2))"
  using py_truediv_Finite [of 2 1] by (simp add: round_to_double_half)

lemma py_round_50: "py_round (Finite 50) 2 = Finite 50"
  using round_half_even_of_int [of 5000] by (simp add: ieee_round_50)

lemma ieee_round_0: "ieee_round 0 = Finite 0"
  by (simp add: ieee_round_def round_to_double_def)

lemma py_round_0: "py_round (Finite 0) 2 = Finite 0"
  using round_half_even_of_int [of 0] by (simp add: ieee_round_0)

text \<open>
  Every run from a fresh recorder keeps \<open>0 \<le> passed_tests \<le> total_tests\<close>, so its
  pass rate is a float between 0 and 100 and no error.
\<close>

lemma count_status_bounds: "0 \<le> count_status s cs \<and> count_status s cs \<le> int (length cs)"
  by (simp add: count_status_def)

lemma get_pass_rate_run:
  "\<exists>r. get_pass_rate (snd (run w now cs)) = Inr (Finite r) \<and> 0 \<le> r \<and> r \<le> 100"
proof (cases "cs = []")
  case True
  then show ?thesis
    by (simp add: get_pass_rate_def run_eq)
next
  case False
  then have "0 < total_tests (snd (run w now cs))"
    by (simp add: run_eq record_all_total)
  moreover have "0 \<le> passed_tests (snd (run w now cs))"
    using count_status_bounds [of "''PASS''" cs] by (simp add: run_eq record_all_passed)
  moreover have "passed_tests (snd (run w now cs)) \<le> total_tests (snd (run w now cs))"
    using count_status_bounds [of "''PASS''" cs]
    by (simp add: run_eq record_all_passed record_all_total)
  ultimately show ?thesis
    using get_pass_rate_accuracy [of "snd (run w now cs)"] by blast
qed

section \<open>Facts about the report\<close>

text \<open>
  The \<open>"test_results"\<close> item of the report as \<open>json.dump\<close> writes it.
\<close>

lemma json_dump_report_items:
  assumes "report self now = Inr r"
  shows "map_of (json_items (json_dump h r)) ''test_results'' =
           Some (JArr (map json_of_dict (h (test_results self))))"
  using assms by (auto simp: report_def split: sum.splits)

text \<open>
  When the report is built and the path can be written, \<open>save_json_report\<close> writes
  the file, whatever its \<open>print\<close>s do afterwards; and it returns only then.
\<close>

lemma save_json_report_files:
  assumes "report self now = Inr r" and "\<not> unwritable w ''slashy_test_report.json''"
  shows "files (fst (save_json_report w self now)) =
           (files w)(''slashy_test_report.json'' \<mapsto> json_dump (heap w) r)"
    and "heap (fst (save_json_report w self now)) = heap w"
  using assms by (simp_all add: save_json_report_def split_beta split: option.splits)

lemma save_json_report_returned:
  assumes "snd (save_json_report w self now) = None"
  shows "(\<exists>r. report self now = Inr r) \<and> \<not> unwritable w ''slashy_test_report.json''"
  using assms by (auto simp: save_json_report_def split: sum.splits if_splits)

section \<open>The claims\<close>

text \<open>
  \<^bold>\<open>C1.\<close> \<open>get_pass_rate\<close> returns \<open>0.0\<close> when \<open>total_tests\<close> is zero and the
  value of \<open>(passed_tests / total_tests) * 100\<close> when it is positive: the quotient of
  the true division, rounded to a float, times \<open>100.0\<close>, rounded again. Whenever
  \<open>0 \<le> passed_tests \<le> total_tests\<close>, which every run from a fresh recorder keeps,
  that expression raises nothing and its value lies between 0 and 100, within
  \<open>1 / 2 ^ 45\<close> of the exact \<open>passed / total * 100\<close>. The result depends on the two
  counts only. The function has no effect: it takes the tester, returns a float or an
  error, and has no state to return.
\<close>

theorem get_pass_rate_value:
  "(total_tests self = 0 \<longrightarrow> get_pass_rate self = Inr (Finite 0)) \<and>
   (0 < total_tests self \<longrightarrow>
      get_pass_rate self =
        (case py_truediv (passed_tests self) (total_tests self) of
           Inl e \<Rightarrow> Inl e
         | Inr q \<Rightarrow> Inr (float_mul q (Finite 100)))) \<and>
   (0 \<le> passed_tests self \<and> passed_tests self \<le> total_tests self \<and> 0 < total_tests self \<longrightarrow>
      (\<exists>r. get_pass_rate self = Inr (Finite r) \<and> 0 \<le> r \<and> r \<le> 100 \<and>
         \<bar>r - of_int (passed_tests self) / of_int (total_tests self) * 100\<bar> \<le> 1 / 2 ^ 45)) \<and>
   (\<exists>r. get_pass_rate (snd (run w now cs)) = Inr (Finite r) \<and> 0 \<le> r \<and> r \<le> 100) \<and>
   (passed_tests other = passed_tests self \<and> total_tests other = total_tests self \<longrightarrow>
      get_pass_rate other = get_pass_rate self)"
proof (intro conjI impI)
  assume "total_tests self = 0"
  then show "get_pass_rate self = Inr (Finite 0)"
    by (simp add: get_pass_rate_def)
next
  assume "0 < total_tests self"
  then show "get_pass_rate self =
        (case py_truediv (passed_tests self) (total_tests self) of
           Inl e \<Rightarrow> Inl e
         | Inr q \<Rightarrow> Inr (float_mul q (Finite 100)))"
    by (simp add: get_pass_rate_def)
next
  assume "0 \<le> passed_tests self \<and> passed_tests self \<le> total_tests self \<and> 0 < total_tests self"
  then show "\<exists>r. get_pass_rate self = Inr (Finite r) \<and> 0 \<le> r \<and> r \<le> 100 \<and>
         \<bar>r - of_int (passed_tests self) / of_int (total_tests self) * 100\<bar> \<le> 1 / 2 ^ 45"
    using get_pass_rate_accuracy [of self] by blast
next
  show "\<exists>r. get_pass_rate (snd (run w now cs)) = Inr (Finite r) \<and> 0 \<le> r \<and> r \<le> 100"
    by (rule get_pass_rate_run)
next
  assume "passed_tests other = passed_tests self \<and> total_tests other = total_tests self"
  then show "get_pass_rate other = get_pass_rate self"
    by (simp add: get_pass_rate_def)
qed

theorem get_pass_rate_value_witness:
  "total_tests \<lparr>test_results = 0, total_tests = 0, passed_tests = 0, failed_tests = 0,
      partial_tests = 0, error_tests = 0, start_time = ''t0''\<rparr> = 0 \<and>
   get_pass_rate \<lparr>test_results = 0, total_tests = 0, passed_tests = 0, failed_tests = 0,
      partial_tests = 0, error_tests = 0, start_time = ''t0''\<rparr> = Inr (Finite 0) \<and>
   0 < total_tests \<lparr>test_results = 0, total_tests = 4, passed_tests = 2, failed_tests = 1,
      partial_tests = 1, error_tests = 0, start_time = ''t0''\<rparr> \<and>
   0 \<le> passed_tests \<lparr>test_results = 0, total_tests = 4, passed_tests = 2, failed_tests = 1,
      partial_tests = 1, error_tests = 0, start_time = ''t0''\<rparr> \<and>
   passed_tests \<lparr>test_results = 0, total_tests = 4, passed_tests = 2, failed_tests = 1,
      partial_tests = 1, error_tests = 0, start_time = ''t0''\<rparr>
     \<le> total_tests \<lparr>test_results = 0, total_tests = 4, passed_tests = 2, failed_tests = 1,
      partial_tests = 1, error_tests = 0, start_time = ''t0''\<rparr> \<and>
   get_pass_rate \<lparr>test_results = 0, total_tests = 4, passed_tests = 2, failed_tests = 1,
      partial_tests = 1, error_tests = 0, start_time = ''t0''\<rparr> = Inr (Finite 50) \<and>
   get_pass_rate \<lparr>test_results = 7, total_tests = 4, passed_tests = 2, failed_tests = 0,
      partial_tests = 0, error_tests = 2, start_time = ''t9''\<rparr> =
   get_pass_rate \<lparr>test_results = 0, total_tests = 4, passed_tests = 2, failed_tests = 1,
      partial_tests = 1, error_tests = 0, start_time = ''t0''\<rparr>"
  using
    get_pass_rate_value [where self = "\<lparr>test_results = 0, total_tests = 0, passed_tests = 0,
      failed_tests = 0, partial_tests = 0, error_tests = 0, start_time = ''t0''\<rparr>"]
    get_pass_rate_value [where self = "\<lparr>test_results = 0, total_tests = 4, passed_tests = 2,
      failed_tests = 1, partial_tests = 1, error_tests = 0, start_time = ''t0''\<rparr>"
      and other = "\<lparr>test_results = 7, total_tests = 4, passed_tests = 2, failed_tests = 0,
      partial_tests = 0, error_tests = 2, start_time = ''t9''\<rparr>"]
  by (simp add: truediv_2_4 ieee_round_50)

text \<open>
  \<^bold>\<open>C2.\<close> Starting from a fresh recorder, after any sequence of \<open>record_test\<close>
  calls \<open>total_tests\<close> is the length of \<open>test_results\<close>; the list holds one result
  per call, in call order, and calling on (\<open>ds\<close> after \<open>cs\<close>) only appends: what was
  recorded stays where it was, unchanged.
\<close>

theorem total_tests_is_length_append_only:
  "total_tests (snd (run w now cs)) = int (length (results_of (run w now cs))) \<and>
   results_of (run w now cs) = map call_result cs \<and>
   results_of (run w now (cs @ ds)) = results_of (run w now cs) @ map call_result ds"
proof -
  have "total_tests (snd (run w now cs)) = int (length cs)"
    by (simp add: run_eq record_all_total)
  then show ?thesis
    by (simp add: results_of_run)
qed




text \<open>
  \<^bold>\<open>C4.\<close> After a fresh recorder has taken any sequence of calls, the four status
  counters sum to at most \<open>total_tests\<close>, and to exactly \<open>total_tests\<close> if and only
  if every call used one of PASS, FAIL, PARTIAL, ERROR.
\<close>

theorem buckets_le_total:
  "passed_tests (snd (run w now cs)) + failed_tests (snd (run w now cs)) +
     partial_tests (snd (run w now cs)) + error_tests (snd (run w now cs))
     \<le> total_tests (snd (run w now cs)) \<and>
   ((passed_tests (snd (run w now cs)) + failed_tests (snd (run w now cs)) +
       partial_tests (snd (run w now cs)) + error_tests (snd (run w now cs))
       = total_tests (snd (run w now cs)))
    = (\<forall>c\<in>set cs. recognized (call_status c)))"
proof -
  have "passed_tests (snd (run w now cs)) + failed_tests (snd (run w now cs)) +
     partial_tests (snd (run w now cs)) + error_tests (snd (run w now cs)) =
     int (length (filter (\<lambda>c. recognized (call_status c)) cs))"
    using count_recognized [of cs]
    by (simp add: run_eq record_all_passed record_all_failed record_all_partial
        record_all_error)
  moreover have "total_tests (snd (run w now cs)) = int (length cs)"
    by (simp add: run_eq record_all_total)
  ultimately show ?thesis
    using length_filter_eq_iff [of "\<lambda>c. recognized (call_status c)" cs]
    by simp
qed

theorem buckets_le_total_witness:
  "recognized (call_status (''c'', ''Compose mail'', ''PASS'', '''', ''t1'')) \<and>
   recognized (call_status (''/'', ''Search'', ''FAIL'', '''', ''t2'')) \<and>
   passed_tests (snd (run empty_world ''t0''
      [(''c'', ''Compose mail'', ''PASS'', '''', ''t1''),
       (''/'', ''Search'', ''FAIL'', '''', ''t2'')])) +
   failed_tests (snd (run empty_world ''t0''
      [(''c'', ''Compose mail'', ''PASS'', '''', ''t1''),
       (''/'', ''Search'', ''FAIL'', '''', ''t2'')])) +
   partial_tests (snd (run empty_world ''t0''
      [(''c'', ''Compose mail'', ''PASS'', '''', ''t1''),
       (''/'', ''Search'', ''FAIL'', '''', ''t2'')])) +
   error_tests (snd (run empty_world ''t0''
      [(''c'', ''Compose mail'', ''PASS'', '''', ''t1''),
       (''/'', ''Search'', ''FAIL'', '''', ''t2'')])) =
   total_tests (snd (run empty_world ''t0''
      [(''c'', ''Compose mail'', ''PASS'', '''', ''t1''),
       (''/'', ''Search'', ''FAIL'', '''', ''t2'')]))"
proof -
  have h1: "recognized (call_status (''c'', ''Compose mail'', ''PASS'', '''', ''t1''))"
    and h2: "recognized (call_status (''/'', ''Search'', ''FAIL'', '''', ''t2''))"
    by (simp_all add: recognized_def call_status_def)
  then have h: "\<forall>c\<in>set [(''c'', ''Compose mail'', ''PASS'', '''', ''t1''),
               (''/'', ''Search'', ''FAIL'', '''', ''t2'')]. recognized (call_status c)"
    by simp
  show ?thesis
    using h h1 h2 buckets_le_total [of empty_world "''t0''"
        "[(''c'', ''Compose mail'', ''PASS'', '''', ''t1''),
          (''/'', ''Search'', ''FAIL'', '''', ''t2'')]"]
    by blast
qed

text \<open>
  \<^bold>\<open>C5.\<close> The report that \<open>save_json_report\<close> builds is kept in one place,
  the file it is dumped to (the dict is a local variable of the call and holds
  \<open>self.test_results\<close> itself; \<open>json.dump\<close> writes the list out as it is then).
  The \<open>"test_results"\<close> of the file is the recorder's full sequence, in order, as
  it was when the report was built, and any calls of \<open>record_test\<close> afterwards,
  which do grow the recorder's list, leave the file, and so its \<open>"test_results"\<close>,
  as it was.
\<close>

theorem saved_report_is_snapshot:
  assumes "report self now = Inr r" and "\<not> unwritable w ''slashy_test_report.json''"
  shows "files (fst (save_json_report w self now)) ''slashy_test_report.json'' =
           Some (json_dump (heap w) r) \<and>
         file_test_results (fst (save_json_report w self now)) =
           Some (JArr (map json_of_dict (results_of (w, self)))) \<and>
         results_of (record_all (fst (save_json_report w self now)) self cs) =
           results_of (w, self) @ map call_result cs \<and>
         files (fst (record_all (fst (save_json_report w self now)) self cs)) =
           files (fst (save_json_report w self now)) \<and>
         file_test_results (fst (record_all (fst (save_json_report w self now)) self cs)) =
           Some (JArr (map json_of_dict (results_of (w, self))))"
  using save_json_report_files [OF assms] json_dump_report_items [OF assms(1), of "heap w"]
  by (simp add: file_test_results_def results_of_def record_all_frame record_all_heap)

theorem saved_report_is_snapshot_witness:
  "report (snd (run empty_world ''t0''
      [(''c'', ''Compose mail'', ''PASS'', ''Opens full compose window'', ''t1''),
       (''/'', ''Search'', ''FAIL'', ''Types character'', ''t2'')])) ''t3'' =
     Inr (PDict
       [(''metadata'', PDict
           [(''application'', PStr ''Slashy Mail''),
            (''platform'', PStr ''Mac OS''),
            (''browser'', PStr ''Chrome''),
            (''url'', PStr ''https://slashy.com''),
            (''start_time'', PStr ''t0''),
            (''end_time'', PStr ''t3'')]),
        (''summary'', PDict
           [(''total_tests'', PInt 2),
            (''passed'', PInt 1),
            (''partial'', PInt 0),
            (''failed'', PInt 1),
            (''errors'', PInt 0),
            (''pass_rate'', PFloat (Finite 50))]),
        (''test_results'', PListRef 0)]) \<and>
   \<not> unwritable (fst (run empty_world ''t0''
      [(''c'', ''Compose mail'', ''PASS'', ''Opens full compose window'', ''t1''),
       (''/'', ''Search'', ''FAIL'', ''Types character'', ''t2'')])) ''slashy_test_report.json'' \<and>
   file_test_results (fst (save_json_report
      (fst (run empty_world ''t0''
        [(''c'', ''Compose mail'', ''PASS'', ''Opens full compose window'', ''t1''),
         (''/'', ''Search'', ''FAIL'', ''Types character'', ''t2'')]))
      (snd (run empty_world ''t0''
        [(''c'', ''Compose mail'', ''PASS'', ''Opens full compose window'', ''t1''),
         (''/'', ''Search'', ''FAIL'', ''Types character'', ''t2'')])) ''t3'')) =
     Some (JArr
       [JObj [(''shortcut'', JStr ''c''), (''description'', JStr ''Compose mail''),
              (''status'', JStr ''PASS''), (''timestamp'', JStr ''t1''),
              (''notes'', JStr ''Opens full compose window'')],
        JObj [(''shortcut'', JStr ''/''), (''description'', JStr ''Search''),
              (''status'', JStr ''FAIL''), (''timestamp'', JStr ''t2''),
              (''notes'', JStr ''Types character'')]]) \<and>
   file_test_results (fst (record_all
      (fst (save_json_report
        (fst (run empty_world ''t0''
          [(''c'', ''Compose mail'', ''PASS'', ''Opens full compose window'', ''t1''),
           (''/'', ''Search'', ''FAIL'', ''Types character'', ''t2'')]))
        (snd (run empty_world ''t0''
          [(''c'', ''Compose mail'', ''PASS'', ''Opens full compose window'', ''t1''),
           (''/'', ''Search'', ''FAIL'', ''Types character'', ''t2'')])) ''t3''))
      (snd (run empty_world ''t0''
        [(''c'', ''Compose mail'', ''PASS'', ''Opens full compose window'', ''t1''),
         (''/'', ''Search'', ''FAIL'', ''Types character'', ''t2'')]))
      [(''u'', ''Toggle read/unread'', ''PARTIAL'', ''Navigates away'', ''t4'')])) =
     Some (JArr
       [JObj [(''shortcut'', JStr ''c''), (''description'', JStr ''Compose mail''),
              (''status'', JStr ''PASS''), (''timestamp'', JStr ''t1''),
              (''notes'', JStr ''Opens full compose window'')],
        JObj [(''shortcut'', JStr ''/''), (''description'', JStr ''Search''),
              (''status'', JStr ''FAIL''), (''timestamp'', JStr ''t2''),
              (''notes'', JStr ''Types character'')]]) \<and>
   length (results_of (record_all
      (fst (save_json_report
        (fst (run empty_world ''t0''
          [(''c'', ''Compose mail'', ''PASS'', ''Opens full compose window'', ''t1''),
           (''/'', ''Search'', ''FAIL'', ''Types character'', ''t2'')]))
        (snd (run empty_world ''t0''
          [(''c'', ''Compose mail'', ''PASS'', ''Opens full compose window'', ''t1''),
           (''/'', ''Search'', ''FAIL'', ''Types character'', ''t2'')])) ''t3''))
      (snd (run empty_world ''t0''
        [(''c'', ''Compose mail'', ''PASS'', ''Opens full compose window'', ''t1''),
         (''/'', ''Search'', ''FAIL'', ''Types character'', ''t2'')]))
      [(''u'', ''Toggle read/unread'', ''PARTIAL'', ''Navigates away'', ''t4'')])) = 3"
proof -
  let ?cs = "[(''c'', ''Compose mail'', ''PASS'', ''Opens full compose window'', ''t1''),
       (''/'', ''Search'', ''FAIL'', ''Types character'', ''t2'')]"
  have h1: "report (snd (run empty_world ''t0'' ?cs)) ''t3'' =
     Inr (PDict
       [(''metadata'', PDict
           [(''application'', PStr ''Slashy Mail''),
            (''platform'', PStr ''Mac OS''),
            (''browser'', PStr ''Chrome''),
            (''url'', PStr ''https://slashy.com''),
            (''start_time'', PStr ''t0''),
            (''end_time'', PStr ''t3'')]),
        (''summary'', PDict
           [(''total_tests'', PInt 2),
            (''passed'', PInt 1),
            (''partial'', PInt 0),
            (''failed'', PInt 1),
            (''errors'', PInt 0),
            (''pass_rate'', PFloat (Finite 50))]),
        (''test_results'', PListRef 0)])"
  proof -
    have f: "total_tests (snd (run empty_world ''t0'' ?cs)) = 2"
      "passed_tests (snd (run empty_world ''t0'' ?cs)) = 1"
      "failed_tests (snd (run empty_world ''t0'' ?cs)) = 1"
      "partial_tests (snd (run empty_world ''t0'' ?cs)) = 0"
      "error_tests (snd (run empty_world ''t0'' ?cs)) = 0"
      "start_time (snd (run empty_world ''t0'' ?cs)) = ''t0''"
      "test_results (snd (run empty_world ''t0'' ?cs)) = 0"
      by (simp_all add: run_eq record_all_total record_all_passed record_all_failed
          record_all_partial record_all_error record_all_frame count_status_def
          call_status_def empty_world_def del: record_all.simps)
    show ?thesis
      using py_round_50
      by (simp add: report_def get_pass_rate_def f truediv_1_2 ieee_round_50 isoformat_def
          del: record_all.simps)
  qed
  have h2: "\<not> unwritable (fst (run empty_world ''t0'' ?cs)) ''slashy_test_report.json''"
    by (simp add: run_eq record_all_frame init_def empty_world_def del: record_all.simps)
  have r: "results_of (run empty_world ''t0'' ?cs) = map call_result ?cs"
    by (rule results_of_run)
  note snap = saved_report_is_snapshot [OF h1 h2,
      of "[(''u'', ''Toggle read/unread'', ''PARTIAL'', ''Navigates away'', ''t4'')]"]
  have pair: "(fst (run empty_world ''t0'' ?cs), snd (run empty_world ''t0'' ?cs)) =
      run empty_world ''t0'' ?cs"
    by simp
  show ?thesis
    using h1 h2 snap
    unfolding pair r
    by (simp add: call_result_def json_of_dict_def isoformat_def del: record_all.simps)
qed

text \<open>
  \<^bold>\<open>C6.\<close> The overall status that \<open>print_summary\<close> prints is a function of the
  pass rate alone: PRODUCTION READY from 80 up, MOSTLY FUNCTIONAL from 60 up to but not
  including 80, NEEDS IMPROVEMENT below 60 (each label after its icon and a space). An
  infinite rate is compared like a number, and NaN is below every threshold. A recorder
  with no result has the rate \<open>0.0\<close> and the status NEEDS IMPROVEMENT, and the
  report built from it has \<open>"pass_rate": 0.0\<close>.
\<close>

theorem overall_status_thresholds:
  "(80 \<le> r \<longrightarrow> overall_status (Finite r) = check_mark @ '' PRODUCTION READY'') \<and>
   (60 \<le> r \<and> r < 80 \<longrightarrow> overall_status (Finite r) = warning_sign @ '' MOSTLY FUNCTIONAL'') \<and>
   (r < 60 \<longrightarrow> overall_status (Finite r) = ballot_x @ '' NEEDS IMPROVEMENT'') \<and>
   overall_status PosInf = check_mark @ '' PRODUCTION READY'' \<and>
   overall_status NegInf = ballot_x @ '' NEEDS IMPROVEMENT'' \<and>
   overall_status NaN = ballot_x @ '' NEEDS IMPROVEMENT'' \<and>
   print_summary self =
     (case get_pass_rate self of Inl e \<Rightarrow> Inl e | Inr p \<Rightarrow> Inr (overall_status p)) \<and>
   get_pass_rate (snd (run w now [])) = Inr (Finite 0) \<and>
   print_summary (snd (run w now [])) = Inr (ballot_x @ '' NEEDS IMPROVEMENT'') \<and>
   report (snd (run w now [])) t =
     Inr (PDict
       [(''metadata'', PDict
           [(''application'', PStr ''Slashy Mail''),
            (''platform'', PStr ''Mac OS''),
            (''browser'', PStr ''Chrome''),
            (''url'', PStr ''https://slashy.com''),
            (''start_time'', PStr (isoformat now)),
            (''end_time'', PStr (isoformat t))]),
        (''summary'', PDict
           [(''total_tests'', PInt 0),
            (''passed'', PInt 0),
            (''partial'', PInt 0),
            (''failed'', PInt 0),
            (''errors'', PInt 0),
            (''pass_rate'', PFloat (Finite 0))]),
        (''test_results'', PListRef (next_addr w))])"
  using py_round_0
  by (simp add: overall_status_def print_summary_def get_pass_rate_def run_eq report_def)

theorem overall_status_thresholds_witness:
  "(80::rat) \<le> 85 \<and> overall_status (Finite 85) = check_mark @ '' PRODUCTION READY'' \<and>
   (60::rat) \<le> 70 \<and> (70::rat) < 80 \<and>
   overall_status (Finite 70) = warning_sign @ '' MOSTLY FUNCTIONAL'' \<and>
   (30::rat) < 60 \<and> overall_status (Finite 30) = ballot_x @ '' NEEDS IMPROVEMENT''"
  using overall_status_thresholds [of 85] overall_status_thresholds [of 70]
    overall_status_thresholds [of 30]
  by simp

text \<open>
  \<^bold>\<open>C7.\<close> Two call sequences whose statuses form the same multiset give the same
  \<open>get_pass_rate\<close>, whatever their order, their other arguments, their clock readings
  and the world the recorder was created in.
\<close>

theorem pass_rate_order_invariant:
  assumes "mset (map call_status cs) = mset (map call_status ds)"
  shows "get_pass_rate (snd (run w now cs)) = get_pass_rate (snd (run w' now' ds))"
proof -
  have "length cs = length ds"
    using assms by (metis length_map size_mset)
  moreover have "count_status ''PASS'' cs = count_status ''PASS'' ds"
    using assms by (simp add: count_status_mset)
  ultimately show ?thesis
    by (simp add: get_pass_rate_def run_eq record_all_total record_all_passed)
qed

theorem pass_rate_order_invariant_witness:
  "mset (map call_status [(''c'', ''Compose mail'', ''PASS'', '''', ''t1''),
                          (''/'', ''Search'', ''FAIL'', '''', ''t2'')]) =
   mset (map call_status [(''/'', ''Search'', ''FAIL'', '''', ''t3''),
                          (''c'', ''Compose mail'', ''PASS'', '''', ''t4'')]) \<and>
   get_pass_rate (snd (run empty_world ''t0''
      [(''c'', ''Compose mail'', ''PASS'', '''', ''t1''),
       (''/'', ''Search'', ''FAIL'', '''', ''t2'')])) =
   get_pass_rate (snd (run empty_world ''t0''
      [(''/'', ''Search'', ''FAIL'', '''', ''t3''),
       (''c'', ''Compose mail'', ''PASS'', '''', ''t4'')]))"
proof -
  have h: "mset (map call_status [(''c'', ''Compose mail'', ''PASS'', '''', ''t1''),
                          (''/'', ''Search'', ''FAIL'', '''', ''t2'')]) =
   mset (map call_status [(''/'', ''Search'', ''FAIL'', '''', ''t3''),
                          (''c'', ''Compose mail'', ''PASS'', '''', ''t4'')])"
    by (simp add: call_status_def)
  show ?thesis
    using h pass_rate_order_invariant [OF h, of empty_world "''t0''" empty_world "''t0''"]
    by blast
qed

text \<open>
  \<^bold>\<open>C8.\<close> After 21 calls of which 17 had the status PASS, \<open>get_pass_rate\<close>
  returns the float \<open>5696517385810895 / 2 ^ 46\<close>, which is \<open>80.95238095238095\<close>:
  within \<open>1 / 2 ^ 45\<close> of \<open>17 / 21 * 100\<close>, and \<open>round\<close> to two places takes it to
  the float \<open>80.95\<close>. It is at least 80, so the status is PRODUCTION READY. The
  statuses of the other four calls do not matter.
\<close>

theorem pass_rate_17_of_21:
  assumes "length cs = 21" and "count_status ''PASS'' cs = 17"
  shows "get_pass_rate (snd (run w now cs)) =
           Inr (Finite (5696517385810895 / 70368744177664)) \<and>
         \<bar>5696517385810895 / 70368744177664 - (17 / 21 * 100 :: rat)\<bar> \<le> 1 / 2 ^ 45 \<and>
         py_round (Finite (5696517385810895 / 70368744177664)) 2 = ieee_round (8095 / 100) \<and>
         print_summary (snd (run w now cs)) = Inr (check_mark @ '' PRODUCTION READY'')"
proof -
  have tot: "total_tests (snd (run w now cs)) = 21"
    using assms(1) by (simp add: run_eq record_all_total)
  have pas: "passed_tests (snd (run w now cs)) = 17"
    using assms(2) by (simp add: run_eq record_all_passed)
  have rate: "get_pass_rate (snd (run w now cs)) =
           Inr (Finite (5696517385810895 / 70368744177664))"
    by (simp add: get_pass_rate_def tot pas truediv_17_21 ieee_round_17_21_100)
  have rnd: "py_round (Finite (5696517385810895 / 70368744177664)) 2 = ieee_round (8095 / 100)"
    using round_half_even_17_21 by simp
  have st: "print_summary (snd (run w now cs)) = Inr (check_mark @ '' PRODUCTION READY'')"
    by (simp add: print_summary_def rate overall_status_def)
  have "\<bar>5696517385810895 / 70368744177664 - (17 / 21 * 100 :: rat)\<bar> \<le> 1 / 2 ^ 45"
    by simp
  with rate rnd st show ?thesis by blast
qed

theorem pass_rate_17_of_21_witness:
  "length (replicate 17 (''c'', ''Compose mail'', ''PASS'', '''', ''t1'') @
           replicate 4 (''/'', ''Search'', ''FAIL'', '''', ''t2'')) = 21 \<and>
   count_status ''PASS'' (replicate 17 (''c'', ''Compose mail'', ''PASS'', '''', ''t1'') @
           replicate 4 (''/'', ''Search'', ''FAIL'', '''', ''t2'')) = 17 \<and>
   get_pass_rate (snd (run empty_world ''t0''
          (replicate 17 (''c'', ''Compose mail'', ''PASS'', '''', ''t1'') @
           replicate 4 (''/'', ''Search'', ''FAIL'', '''', ''t2'')))) =
     Inr (Finite (5696517385810895 / 70368744177664)) \<and>
   print_summary (snd (run empty_world ''t0''
          (replicate 17 (''c'', ''Compose mail'', ''PASS'', '''', ''t1'') @
           replicate 4 (''/'', ''Search'', ''FAIL'', '''', ''t2'')))) =
     Inr (check_mark @ '' PRODUCTION READY'')"
proof -
  have h1: "length (replicate 17 (''c'', ''Compose mail'', ''PASS'', '''', ''t1'') @
           replicate 4 (''/'', ''Search'', ''FAIL'', '''', ''t2'')) = 21"
    by simp
  have h2: "count_status ''PASS'' (replicate 17 (''c'', ''Compose mail'', ''PASS'', '''', ''t1'') @
           replicate 4 (''/'', ''Search'', ''FAIL'', '''', ''t2'')) = 17"
    by (simp add: count_status_def call_status_def)
  show ?thesis
    using h1 h2 pass_rate_17_of_21 [OF h1 h2, of empty_world "''t0''"]
    by blast
qed

text \<open>
  \<^bold>\<open>C9.\<close> One \<open>record_test\<close> call adds exactly one to \<open>total_tests\<close> and either
  adds one to exactly one of the four status counters or leaves all four as they were.
  Hence no counter ever decreases over a sequence of calls, and from a fresh recorder
  all five are non-negative.
\<close>

theorem record_test_counters_step:
  "total_tests (snd (fst (record_test w self shortcut description status notes now))) =
     total_tests self + 1 \<and>
   ((passed_tests (snd (fst (record_test w self shortcut description status notes now))) =
       passed_tests self + 1 \<and>
     failed_tests (snd (fst (record_test w self shortcut description status notes now))) =
       failed_tests self \<and>
     partial_tests (snd (fst (record_test w self shortcut description status notes now))) =
       partial_tests self \<and>
     error_tests (snd (fst (record_test w self shortcut description status notes now))) =
       error_tests self) \<or>
    (passed_tests (snd (fst (record_test w self shortcut description status notes now))) =
       passed_tests self \<and>
     failed_tests (snd (fst (record_test w self shortcut description status notes now))) =
       failed_tests self + 1 \<and>
     partial_tests (snd (fst (record_test w self shortcut description status notes now))) =
       partial_tests self \<and>
     error_tests (snd (fst (record_test w self shortcut description status notes now))) =
       error_tests self) \<or>
    (passed_tests (snd (fst (record_test w self shortcut description status notes now))) =
       passed_tests self \<and>
     failed_tests (snd (fst (record_test w self shortcut description status notes now))) =
       failed_tests self \<and>
     partial_tests (snd (fst (record_test w self shortcut description status notes now))) =
       partial_tests self + 1 \<and>
     error_tests (snd (fst (record_test w self shortcut description status notes now))) =
       error_tests self) \<or>
    (passed_tests (snd (fst (record_test w self shortcut description status notes now))) =
       passed_tests self \<and>
     failed_tests (snd (fst (record_test w self shortcut description status notes now))) =
       failed_tests self \<and>
     partial_tests (snd (fst (record_test w self shortcut description status notes now))) =
       partial_tests self \<and>
     error_tests (snd (fst (record_test w self shortcut description status notes now))) =
       error_tests self + 1) \<or>
    (passed_tests (snd (fst (record_test w self shortcut description status notes now))) =
       passed_tests self \<and>
     failed_tests (snd (fst (record_test w self shortcut description status notes now))) =
       failed_tests self \<and>
     partial_tests (snd (fst (record_test w self shortcut description status notes now))) =
       partial_tests self \<and>
     error_tests (snd (fst (record_test w self shortcut description status notes now))) =
       error_tests self)) \<and>
   total_tests self \<le> total_tests (snd (record_all w self cs)) \<and>
   passed_tests self \<le> passed_tests (snd (record_all w self cs)) \<and>
   failed_tests self \<le> failed_tests (snd (record_all w self cs)) \<and>
   partial_tests self \<le> partial_tests (snd (record_all w self cs)) \<and>
   error_tests self \<le> error_tests (snd (record_all w self cs)) \<and>
   0 \<le> total_tests (snd (run w now cs)) \<and>
   0 \<le> passed_tests (snd (run w now cs)) \<and>
   0 \<le> failed_tests (snd (run w now cs)) \<and>
   0 \<le> partial_tests (snd (run w now cs)) \<and>
   0 \<le> error_tests (snd (run w now cs))"
  by (simp add: run_eq record_all_total record_all_passed record_all_failed
      record_all_partial record_all_error count_status_def)

text \<open>
  \<^bold>\<open>C10.\<close> On the same sequence of calls (the second class takes a \<open>test_id\<close>
  with each), \<open>record_test\<close> of \<open>slashy_shortcut_tests.py\<close> and \<open>record_test\<close> of
  \<open>slashy_test.py\<close> end with the same total, passed, failed and partial counts. The
  difference is the status ERROR: the first class counts it in \<open>error_tests\<close>, the
  second has no such counter and only its total moves.
\<close>

theorem sst_record_test_agrees_except_error:
  "sst_total_tests (snd (sst_run w' now' cs)) = total_tests (snd (run w now (map snd cs))) \<and>
   sst_passed_tests (snd (sst_run w' now' cs)) = passed_tests (snd (run w now (map snd cs))) \<and>
   sst_failed_tests (snd (sst_run w' now' cs)) = failed_tests (snd (run w now (map snd cs))) \<and>
   sst_partial_tests (snd (sst_run w' now' cs)) =
     partial_tests (snd (run w now (map snd cs))) \<and>
   error_tests (snd (run w now (map snd cs))) = count_status ''ERROR'' (map snd cs) \<and>
   sst_total_tests (snd (sst_record_test w' self' test_id shortcut description ''ERROR'' notes t))
     = sst_total_tests self' + 1 \<and>
   sst_passed_tests (snd (sst_record_test w' self' test_id shortcut description ''ERROR'' notes t))
     = sst_passed_tests self' \<and>
   sst_failed_tests (snd (sst_record_test w' self' test_id shortcut description ''ERROR'' notes t))
     = sst_failed_tests self' \<and>
   sst_partial_tests (snd (sst_record_test w' self' test_id shortcut description ''ERROR'' notes t))
     = sst_partial_tests self' \<and>
   total_tests (snd (fst (record_test w self shortcut description ''ERROR'' notes t))) =
     total_tests self + 1 \<and>
   error_tests (snd (fst (record_test w self shortcut description ''ERROR'' notes t))) =
     error_tests self + 1"
  by (simp add: run_eq sst_run_eq record_all_total record_all_passed record_all_failed
      record_all_partial record_all_error sst_record_all_total sst_record_all_passed
      sst_record_all_failed sst_record_all_partial)

end
